theory Spec2Isabelle
  imports Complex_Main
begin

section \<open>Numbers and vectors\<close>

text \<open>
  The C++ type \<^verbatim>\<open>float\<close> is read as the real numbers: \<open>+\<close>, \<open>-\<close>, \<open>*\<close> and the
  comparisons are the exact ones. Rounding, overflow to infinity and NaN are outside
  this model; every statement below about a computed number is a statement about the
  exact arithmetic the source text denotes.
\<close>

type_synonym float = real

text \<open>\<^verbatim>\<open>std::max(a, b)\<close> returns \<^verbatim>\<open>(a < b) ? b : a\<close>.\<close>

definition std_max :: "float \<Rightarrow> float \<Rightarrow> float" where
  "std_max a b = (if a < b then b else a)"

text \<open>
  \<^verbatim>\<open>struct Vector2 { float x; float y; }\<close> and \<^verbatim>\<open>struct Vector3 { float x; float y; float z; }\<close>
  (vector2.hpp, vector3.hpp). The fields carry the dimension as a suffix, since both
  structs name them \<^verbatim>\<open>x\<close> and \<^verbatim>\<open>y\<close>.
\<close>

record Vector2 =
  x2 :: float
  y2 :: float

record Vector3 =
  x3 :: float
  y3 :: float
  z3 :: float

text \<open>\<^verbatim>\<open>operator-(const Vector2& a, const Vector2& b)\<close>: \<^verbatim>\<open>{a.x - b.x, a.y - b.y}\<close>.\<close>

definition Vector2_sub :: "Vector2 \<Rightarrow> Vector2 \<Rightarrow> Vector2" where
  "Vector2_sub a b = \<lparr>x2 = x2 a - x2 b, y2 = y2 a - y2 b\<rparr>"

text \<open>\<^verbatim>\<open>Vector3(float value) : Vector3(value, value, value)\<close> and \<^verbatim>\<open>Vector3::Zero()\<close>, which
  returns \<^verbatim>\<open>{0.0f}\<close>.\<close>

definition Vector3_splat :: "float \<Rightarrow> Vector3" where
  "Vector3_splat v = \<lparr>x3 = v, y3 = v, z3 = v\<rparr>"

definition Vector3_Zero :: Vector3 where
  "Vector3_Zero = Vector3_splat 0"

text \<open>The free operators \<^verbatim>\<open>operator+\<close>, \<^verbatim>\<open>operator-\<close> and \<^verbatim>\<open>operator*(const Vector3&, float)\<close>,
  and the member \<^verbatim>\<open>operator-=\<close>, each component by component as in vector3.hpp.\<close>

definition Vector3_add :: "Vector3 \<Rightarrow> Vector3 \<Rightarrow> Vector3" where
  "Vector3_add a b = \<lparr>x3 = x3 a + x3 b, y3 = y3 a + y3 b, z3 = z3 a + z3 b\<rparr>"

definition Vector3_sub :: "Vector3 \<Rightarrow> Vector3 \<Rightarrow> Vector3" where
  "Vector3_sub a b = \<lparr>x3 = x3 a - x3 b, y3 = y3 a - y3 b, z3 = z3 a - z3 b\<rparr>"

definition Vector3_mul :: "Vector3 \<Rightarrow> float \<Rightarrow> Vector3" where
  "Vector3_mul v n = \<lparr>x3 = x3 v * n, y3 = y3 v * n, z3 = z3 v * n\<rparr>"

definition Vector3_sub_assign :: "Vector3 \<Rightarrow> Vector3 \<Rightarrow> Vector3" where
  "Vector3_sub_assign this v =
     (let this = this\<lparr>x3 := x3 this - x3 v\<rparr>;
          this = this\<lparr>y3 := y3 this - y3 v\<rparr>;
          this = this\<lparr>z3 := z3 this - z3 v\<rparr>
      in this)"

section \<open>The parameter bundle\<close>

text \<open>
  \<^verbatim>\<open>OrbitControls::Parameters\<close> (orbit_controls.hpp), with its default member
  initialisers.
\<close>

record Parameters =
  radius :: float
  pitch :: float
  yaw :: float
  orbit_speed :: float
  pan_speed :: float
  zoom_speed :: float

definition Parameters_default :: Parameters where
  "Parameters_default =
     \<lparr>Parameters.radius = 1, pitch = 0, yaw = 0,
      Parameters.orbit_speed = 0.01, Parameters.pan_speed = 0.001,
      Parameters.zoom_speed = 0.25\<rparr>"

section \<open>Collaborators that are not among the sources\<close>

text \<open>
  Modelled from the spec: \<^verbatim>\<open>struct Spherical\<close> (vglx/math/spherical.hpp is missing).
  The fields are the three the controller reads and writes; \<open>phi\<close> is the azimuth
  angle (it receives \<^verbatim>\<open>params.yaw\<close>) and \<open>theta\<close> the polar angle (it receives
  \<^verbatim>\<open>params.pitch\<close>).
\<close>

record Spherical =
  radius :: float
  phi :: float
  theta :: float

text \<open>
  Modelled from the spec: \<^verbatim>\<open>Spherical::MakeSafe\<close> (spherical.hpp is missing) clamps the
  polar angle into \<open>[\<epsilon>, \<pi> - \<epsilon>]\<close> in place and touches nothing else. The spec leaves
  the margin \<open>\<epsilon>\<close> open, so it is a parameter here.
\<close>

definition MakeSafe :: "float \<Rightarrow> Spherical \<Rightarrow> Spherical" where
  "MakeSafe eps s = s\<lparr>theta := max eps (min (pi - eps) (theta s))\<rparr>"

text \<open>
  Modelled from the spec: \<^verbatim>\<open>Spherical::ToVector3\<close> (spherical.hpp is missing), the
  Y-up conversion \<open>x = r sin \<theta> sin \<phi>\<close>, \<open>y = r cos \<theta>\<close>, \<open>z = r sin \<theta> cos \<phi>\<close>.
\<close>

definition ToVector3 :: "Spherical \<Rightarrow> Vector3" where
  "ToVector3 s =
     \<lparr>x3 = radius s * sin (theta s) * sin (phi s),
      y3 = radius s * cos (theta s),
      z3 = radius s * sin (theta s) * cos (phi s)\<rparr>"

text \<open>
  Modelled from the spec: the camera (vglx/cameras/camera.hpp is missing). The
  controller only sets its position, asks for its right and up vectors and tells it to
  look at a point. The camera is a position and an orientation of an unspecified
  type \<open>'o\<close>. What the camera computes is a parameter of the model:
  \<open>Camera_Right\<close> and \<open>Camera_Up\<close> read the basis vectors off a camera, and
  \<open>Camera_Reorient c t\<close> is the orientation \<^verbatim>\<open>c.LookAt(t)\<close> gives the camera \<open>c\<close>.
  The record also carries the margin of \<open>MakeSafe\<close>.
\<close>

record 'o Camera =
  transform_position :: Vector3
  orientation :: 'o

record 'o Externals =
  eps :: float
  Camera_Right :: "'o Camera \<Rightarrow> Vector3"
  Camera_Up :: "'o Camera \<Rightarrow> Vector3"
  Camera_Reorient :: "'o Camera \<Rightarrow> Vector3 \<Rightarrow> 'o"

text \<open>
  Modelled from the spec: \<^verbatim>\<open>camera->transform.SetPosition(p)\<close> (camera.hpp is missing)
  stores the position and leaves the orientation.
\<close>

definition SetPosition :: "'o Camera \<Rightarrow> Vector3 \<Rightarrow> 'o Camera" where
  "SetPosition c p = c\<lparr>transform_position := p\<rparr>"

text \<open>
  Modelled from the spec: \<^verbatim>\<open>camera->LookAt(t)\<close> (camera.hpp is missing) reorients the
  camera towards \<open>t\<close> and leaves its position.
\<close>

definition LookAt :: "'o Externals \<Rightarrow> 'o Camera \<Rightarrow> Vector3 \<Rightarrow> 'o Camera" where
  "LookAt ext c t = c\<lparr>orientation := Camera_Reorient ext c t\<rparr>"


text \<open>
  Modelled from the spec: the pointer event (vglx/events is missing). An event is one of
  \<^verbatim>\<open>Moved\<close>, \<^verbatim>\<open>ButtonPressed\<close>, \<^verbatim>\<open>ButtonReleased\<close>, \<^verbatim>\<open>Scrolled\<close> and carries a
  position, a button and a scroll vector. The buttons are \<^verbatim>\<open>None\<close>, \<^verbatim>\<open>Left\<close>,
  \<^verbatim>\<open>Right\<close> and any further enumerators, numbered.
\<close>

datatype MouseButton =
  MouseButton_None | MouseButton_Left | MouseButton_Right | MouseButton_Other nat

datatype MouseEvent_Type = Moved | ButtonPressed | ButtonReleased | Scrolled

record MouseEvent =
  type :: MouseEvent_Type
  position :: Vector2
  button :: MouseButton
  scroll :: Vector2

section \<open>The controller\<close>

text \<open>\<^verbatim>\<open>struct OrbitControls::Impl\<close> (orbit_controls.cpp, lines 16 to 30). The camera the
  pointer refers to is held in the state: the controller is its only writer.\<close>

record 'o Impl =
  camera :: "'o Camera"
  spherical :: Spherical
  target :: Vector3
  curr_pos :: Vector2
  prev_pos :: Vector2
  curr_button :: MouseButton
  orbit_speed :: float
  pan_speed :: float
  zoom_speed :: float
  curr_scroll_offset :: float

text \<open>The constructor (lines 64 to 74): the default member initialisers of \<open>Impl\<close>, then the
  six assignments from the parameters.\<close>

definition OrbitControls :: "'o Camera \<Rightarrow> Parameters \<Rightarrow> 'o Impl" where
  "OrbitControls cam params =
     \<lparr>camera = cam,
      spherical = \<lparr>radius = Parameters.radius params, phi = yaw params, theta = pitch params\<rparr>,
      target = Vector3_Zero,
      curr_pos = \<lparr>x2 = 0, y2 = 0\<rparr>,
      prev_pos = \<lparr>x2 = 0, y2 = 0\<rparr>,
      curr_button = MouseButton_None,
      orbit_speed = Parameters.orbit_speed params,
      pan_speed = Parameters.pan_speed params,
      zoom_speed = Parameters.zoom_speed params,
      curr_scroll_offset = 0\<rparr>"

text \<open>The four local constants at the head of \<open>Impl::OnUpdate\<close> (lines 33 to 36).\<close>

definition offset :: "'o Impl \<Rightarrow> Vector2" where
  "offset s = Vector2_sub (curr_pos s) (prev_pos s)"

definition do_orbit :: "'o Impl \<Rightarrow> bool" where
  "do_orbit s = (curr_button s = MouseButton_Left)"

definition do_pan :: "'o Impl \<Rightarrow> bool" where
  "do_pan s = (curr_button s = MouseButton_Right)"

definition do_zoom :: "'o Impl \<Rightarrow> bool" where
  "do_zoom s = (curr_scroll_offset s \<noteq> 0)"

text \<open>\<open>Impl::OnUpdate\<close> (lines 32 to 61), statement by statement. The four constants are
  taken from the state on entry, \<open>s0\<close>; \<open>delta\<close> is not used.\<close>

definition OnUpdate :: "'o Externals \<Rightarrow> 'o Impl \<Rightarrow> float \<Rightarrow> 'o Impl" where
  "OnUpdate ext s0 delta =
     (let s = s0;
          s = (if do_orbit s0 then
                 let s = s\<lparr>spherical := (spherical s)
                            \<lparr>phi := phi (spherical s) - x2 (offset s0) * orbit_speed s\<rparr>\<rparr>;
                     s = s\<lparr>spherical := (spherical s)
                            \<lparr>theta := theta (spherical s) + y2 (offset s0) * orbit_speed s\<rparr>\<rparr>
                 in s
               else s);
          s = (if do_zoom s0 then
                 let s = s\<lparr>spherical := (spherical s)
                            \<lparr>radius := radius (spherical s) - curr_scroll_offset s * zoom_speed s\<rparr>\<rparr>;
                     s = s\<lparr>spherical := (spherical s)
                            \<lparr>radius := std_max 0.1 (radius (spherical s))\<rparr>\<rparr>;
                     s = s\<lparr>curr_scroll_offset := 0\<rparr>
                 in s
               else s);
          s = (if do_pan s0 then
                 let speed = pan_speed s * radius (spherical s);
                     right = Camera_Right ext (camera s);
                     up = Camera_Up ext (camera s)
                 in s\<lparr>target := Vector3_sub_assign (target s)
                        (Vector3_mul
                           (Vector3_sub (Vector3_mul right (x2 (offset s0)))
                                        (Vector3_mul up (y2 (offset s0))))
                           speed)\<rparr>
               else s);
          s = s\<lparr>prev_pos := curr_pos s\<rparr>;
          s = s\<lparr>spherical := MakeSafe (eps ext) (spherical s)\<rparr>;
          s = s\<lparr>camera := SetPosition (camera s) (Vector3_add (target s) (ToVector3 (spherical s)))\<rparr>;
          s = s\<lparr>camera := LookAt ext (camera s) (target s)\<rparr>
      in s)"

text \<open>\<open>OrbitControls::OnMouseEvent\<close> (lines 76 to 92), statement by statement.\<close>

definition OnMouseEvent :: "'o Impl \<Rightarrow> MouseEvent \<Rightarrow> 'o Impl" where
  "OnMouseEvent s0 event =
     (let s = s0\<lparr>curr_pos := position event\<rparr>;
          is_pressed = (type event = ButtonPressed);
          s = (if is_pressed \<and> curr_button s = MouseButton_None
               then s\<lparr>curr_button := button event\<rparr> else s);
          is_released = (type event = ButtonReleased);
          s = (if is_released \<and> button event = curr_button s
               then s\<lparr>curr_button := MouseButton_None\<rparr> else s);
          s = (if type event = Scrolled
               then s\<lparr>curr_scroll_offset := y2 (scroll event)\<rparr> else s)
      in s)"

section \<open>Runs of the controller\<close>

text \<open>What the scene delivers to the controller: a pointer event, or a frame with its
  time step.\<close>

datatype Step = Event MouseEvent | Frame float

fun step :: "'o Externals \<Rightarrow> 'o Impl \<Rightarrow> Step \<Rightarrow> 'o Impl" where
  "step ext s (Event e) = OnMouseEvent s e"
| "step ext s (Frame delta) = OnUpdate ext s delta"

definition run :: "'o Externals \<Rightarrow> 'o Impl \<Rightarrow> Step list \<Rightarrow> 'o Impl" where
  "run ext s steps = foldl (step ext) s steps"

text \<open>The states a controller can be in: constructed, then driven by events and frames.\<close>

inductive reachable :: "'o Externals \<Rightarrow> 'o Impl \<Rightarrow> bool" for ext :: "'o Externals" where
  constructed: "reachable ext (OrbitControls cam params)"
| after_event: "reachable ext s \<Longrightarrow> reachable ext (OnMouseEvent s e)"
| after_frame: "reachable ext s \<Longrightarrow> reachable ext (OnUpdate ext s delta)"

section \<open>Concrete inputs\<close>

text \<open>
  A camera whose orientation is the point it looks at and whose axes are fixed
  (\<^verbatim>\<open>Vector3::Right()\<close> and \<^verbatim>\<open>Vector3::Up()\<close> of vector3.hpp), with the margin \<open>1/1000\<close>
  the spec suggests. It serves where a statement is evaluated on concrete values.
\<close>

definition Vector3_Right :: Vector3 where
  "Vector3_Right = \<lparr>x3 = 1, y3 = 0, z3 = 0\<rparr>"

definition Vector3_Up :: Vector3 where
  "Vector3_Up = \<lparr>x3 = 0, y3 = 1, z3 = 0\<rparr>"

definition fixed_axes :: "Vector3 Externals" where
  "fixed_axes =
     \<lparr>eps = 1 / 1000,
      Camera_Right = (\<lambda>c. Vector3_Right),
      Camera_Up = (\<lambda>c. Vector3_Up),
      Camera_Reorient = (\<lambda>c t. t)\<rparr>"

definition camera_at_origin :: "Vector3 Camera" where
  "camera_at_origin = \<lparr>transform_position = Vector3_Zero, orientation = Vector3_Zero\<rparr>"

definition controller :: "Parameters \<Rightarrow> Vector3 Impl" where
  "controller params = OrbitControls camera_at_origin params"

text \<open>Pointer events by kind. A field the kind does not use is zero, or no button.\<close>

definition moved :: "Vector2 \<Rightarrow> MouseEvent" where
  "moved p = \<lparr>type = Moved, position = p, button = MouseButton_None,
              scroll = \<lparr>x2 = 0, y2 = 0\<rparr>\<rparr>"

definition pressed :: "MouseButton \<Rightarrow> Vector2 \<Rightarrow> MouseEvent" where
  "pressed b p = \<lparr>type = ButtonPressed, position = p, button = b,
                  scroll = \<lparr>x2 = 0, y2 = 0\<rparr>\<rparr>"

definition released :: "MouseButton \<Rightarrow> Vector2 \<Rightarrow> MouseEvent" where
  "released b p = \<lparr>type = ButtonReleased, position = p, button = b,
                   scroll = \<lparr>x2 = 0, y2 = 0\<rparr>\<rparr>"

definition scrolled :: "float \<Rightarrow> Vector2 \<Rightarrow> MouseEvent" where
  "scrolled dy p = \<lparr>type = Scrolled, position = p, button = MouseButton_None,
                    scroll = \<lparr>x2 = 0, y2 = dy\<rparr>\<rparr>"

section \<open>What one call changes, field by field\<close>

lemmas fixture_defs =
  controller_def OrbitControls_def Parameters_default_def camera_at_origin_def fixed_axes_def
  moved_def pressed_def released_def scrolled_def Vector3_Zero_def Vector3_splat_def
  Vector3_Right_def Vector3_Up_def

lemmas op_defs =
  OnMouseEvent_def OnUpdate_def Let_def offset_def do_orbit_def do_pan_def do_zoom_def
  Vector2_sub_def Vector3_add_def Vector3_sub_def Vector3_mul_def Vector3_sub_assign_def
  std_max_def MakeSafe_def SetPosition_def LookAt_def

lemma MakeSafe_radius: "radius (MakeSafe e sp) = radius sp"
  by (simp add: MakeSafe_def)

lemma MakeSafe_phi: "phi (MakeSafe e sp) = phi sp"
  by (simp add: MakeSafe_def)

lemma MakeSafe_theta_bounds:
  "e \<le> pi / 2 \<Longrightarrow> e \<le> theta (MakeSafe e sp) \<and> theta (MakeSafe e sp) \<le> pi - e"
  by (simp add: MakeSafe_def)

lemma MakeSafe_idem: "MakeSafe e (MakeSafe e sp) = MakeSafe e sp"
  by (simp add: MakeSafe_def)

lemma OnUpdate_radius:
  "radius (spherical (OnUpdate ext s delta)) =
     (if do_zoom s
      then std_max 0.1 (radius (spherical s) - curr_scroll_offset s * zoom_speed s)
      else radius (spherical s))"
  by (simp add: OnUpdate_def Let_def MakeSafe_def)

lemma OnUpdate_phi:
  "phi (spherical (OnUpdate ext s delta)) =
     (if do_orbit s then phi (spherical s) - x2 (offset s) * orbit_speed s
      else phi (spherical s))"
  by (simp add: OnUpdate_def Let_def MakeSafe_def)

lemma OnUpdate_theta:
  "theta (spherical (OnUpdate ext s delta)) =
     theta (MakeSafe (eps ext)
       ((spherical s)\<lparr>theta :=
          (if do_orbit s then theta (spherical s) + y2 (offset s) * orbit_speed s
           else theta (spherical s))\<rparr>))"
  by (simp add: OnUpdate_def Let_def MakeSafe_def)

lemma OnUpdate_target:
  "target (OnUpdate ext s delta) =
     (if do_pan s
      then Vector3_sub_assign (target s)
             (Vector3_mul
                (Vector3_sub (Vector3_mul (Camera_Right ext (camera s)) (x2 (offset s)))
                             (Vector3_mul (Camera_Up ext (camera s)) (y2 (offset s))))
                (pan_speed s * radius (spherical (OnUpdate ext s delta))))
      else target s)"
  by (simp add: OnUpdate_def Let_def MakeSafe_def)

lemma OnUpdate_camera:
  "camera (OnUpdate ext s delta) =
     LookAt ext
       (SetPosition (camera s)
          (Vector3_add (target (OnUpdate ext s delta))
                       (ToVector3 (spherical (OnUpdate ext s delta)))))
       (target (OnUpdate ext s delta))"
  by (simp add: OnUpdate_def Let_def)

lemma OnUpdate_fields:
  "curr_pos (OnUpdate ext s delta) = curr_pos s"
  "prev_pos (OnUpdate ext s delta) = curr_pos s"
  "curr_button (OnUpdate ext s delta) = curr_button s"
  "orbit_speed (OnUpdate ext s delta) = orbit_speed s"
  "pan_speed (OnUpdate ext s delta) = pan_speed s"
  "zoom_speed (OnUpdate ext s delta) = zoom_speed s"
  "curr_scroll_offset (OnUpdate ext s delta) = 0"
  by (simp_all add: OnUpdate_def Let_def do_zoom_def)

lemma OnMouseEvent_fields:
  "camera (OnMouseEvent s e) = camera s"
  "spherical (OnMouseEvent s e) = spherical s"
  "target (OnMouseEvent s e) = target s"
  "curr_pos (OnMouseEvent s e) = position e"
  "prev_pos (OnMouseEvent s e) = prev_pos s"
  "orbit_speed (OnMouseEvent s e) = orbit_speed s"
  "pan_speed (OnMouseEvent s e) = pan_speed s"
  "zoom_speed (OnMouseEvent s e) = zoom_speed s"
  "curr_scroll_offset (OnMouseEvent s e) =
     (if type e = Scrolled then y2 (scroll e) else curr_scroll_offset s)"
  by (simp_all add: OnMouseEvent_def Let_def)

lemma OnMouseEvent_curr_button:
  "curr_button (OnMouseEvent s e) =
     (if type e = ButtonPressed \<and> curr_button s = MouseButton_None then button e
      else if type e = ButtonReleased \<and> button e = curr_button s then MouseButton_None
      else curr_button s)"
  by (simp add: OnMouseEvent_def Let_def)

section \<open>The camera pose is derived\<close>

text \<open>
  Claim C1. After every \<open>OnUpdate\<close>, whatever the state and the time step, the camera's
  position is the target plus the Cartesian conversion of the spherical coordinate,
  both as the call leaves them, and the camera is what \<open>LookAt\<close> at that target makes
  of the camera so placed: the pose is recomputed from the target and the spherical
  coordinate in every frame.
\<close>

theorem OnUpdate_derived_pose:
  "transform_position (camera (OnUpdate ext s delta)) =
     Vector3_add (target (OnUpdate ext s delta)) (ToVector3 (spherical (OnUpdate ext s delta)))
   \<and> camera (OnUpdate ext s delta) =
     LookAt ext
       (SetPosition (camera s)
          (Vector3_add (target (OnUpdate ext s delta))
                       (ToVector3 (spherical (OnUpdate ext s delta)))))
       (target (OnUpdate ext s delta))"
  by (simp add: OnUpdate_camera LookAt_def SetPosition_def)

section \<open>Zoom\<close>

lemma step_radius_floor:
  "0.1 \<le> radius (spherical s) \<Longrightarrow> 0.1 \<le> radius (spherical (step ext s st))"
  by (cases st) (simp_all add: OnMouseEvent_fields OnUpdate_radius std_max_def)

lemma run_radius_floor:
  "0.1 \<le> radius (spherical s) \<Longrightarrow> 0.1 \<le> radius (spherical (run ext s steps))"
proof (induction steps arbitrary: s)
  case Nil
  then show ?case by (simp add: run_def)
next
  case (Cons st steps)
  from Cons.prems have "0.1 \<le> radius (spherical (step ext s st))"
    by (rule step_radius_floor)
  then have "0.1 \<le> radius (spherical (run ext (step ext s st) steps))"
    by (rule Cons.IH)
  then show ?case by (simp add: run_def)
qed

text \<open>
  Claim C2. When \<open>OnUpdate\<close> starts with a pending scroll offset other than zero, the
  radius it leaves is the old radius less the offset times the zoom speed, raised to
  \<open>0.1\<close> where that is smaller. So the radius is at least \<open>0.1\<close> after the zoom, and it
  stays at least \<open>0.1\<close> through every further sequence of events and frames.
\<close>

theorem zoom_radius_floor:
  assumes "do_zoom s"
  shows "radius (spherical (OnUpdate ext s delta)) =
           std_max 0.1 (radius (spherical s) - curr_scroll_offset s * zoom_speed s)
         \<and> 0.1 \<le> radius (spherical (OnUpdate ext s delta))
         \<and> 0.1 \<le> radius (spherical (run ext (OnUpdate ext s delta) steps))"
proof -
  have eq: "radius (spherical (OnUpdate ext s delta)) =
           std_max 0.1 (radius (spherical s) - curr_scroll_offset s * zoom_speed s)"
    using assms by (simp add: OnUpdate_radius)
  then have floor: "0.1 \<le> radius (spherical (OnUpdate ext s delta))"
    by (simp add: std_max_def)
  from floor have "0.1 \<le> radius (spherical (run ext (OnUpdate ext s delta) steps))"
    by (rule run_radius_floor)
  with eq floor show ?thesis by simp
qed

theorem zoom_radius_floor_witness:
  "do_zoom (OnMouseEvent (controller Parameters_default) (scrolled 8 \<lparr>x2 = 0, y2 = 0\<rparr>))
   \<and> radius (spherical (OnUpdate fixed_axes
          (OnMouseEvent (controller Parameters_default) (scrolled 8 \<lparr>x2 = 0, y2 = 0\<rparr>)) 0))
       = 0.1
   \<and> 0.1 \<le> radius (spherical (run fixed_axes
          (OnUpdate fixed_axes
             (OnMouseEvent (controller Parameters_default) (scrolled 8 \<lparr>x2 = 0, y2 = 0\<rparr>)) 0)
          [Event (scrolled (- 2) \<lparr>x2 = 0, y2 = 0\<rparr>), Frame 0]))"
proof -
  let ?s = "OnMouseEvent (controller Parameters_default) (scrolled 8 \<lparr>x2 = 0, y2 = 0\<rparr>)"
  have z: "do_zoom ?s"
    by (simp add: fixture_defs op_defs)
  have r: "std_max 0.1 (radius (spherical ?s) - curr_scroll_offset ?s * zoom_speed ?s) = 0.1"
    by (simp add: fixture_defs op_defs)
  from zoom_radius_floor [OF z, of fixed_axes 0
      "[Event (scrolled (- 2) \<lparr>x2 = 0, y2 = 0\<rparr>), Frame 0]"] z r
  show ?thesis by simp
qed

section \<open>Orbit\<close>

text \<open>
  Claim C3. With the left button held and the pointer offset between the two frames
  \<open>(dx, dy)\<close>, one \<open>OnUpdate\<close> takes \<open>dx * orbit_speed\<close> off the azimuth angle \<open>phi\<close>
  and hands \<open>MakeSafe\<close> the polar angle \<open>theta\<close> plus \<open>dy * orbit_speed\<close>; where that sum
  lies in the safe interval it is the new polar angle. The time step has no part in
  it: the call returns the same state for every \<open>delta\<close>.
\<close>

theorem left_drag_rotates:
  assumes "curr_button s = MouseButton_Left"
    and "Vector2_sub (curr_pos s) (prev_pos s) = \<lparr>x2 = dx, y2 = dy\<rparr>"
  shows "phi (spherical (OnUpdate ext s delta)) = phi (spherical s) - dx * orbit_speed s
       \<and> theta (spherical (OnUpdate ext s delta)) =
           theta (MakeSafe (eps ext)
             ((spherical s)\<lparr>theta := theta (spherical s) + dy * orbit_speed s\<rparr>))
       \<and> (eps ext \<le> theta (spherical s) + dy * orbit_speed s
            \<and> theta (spherical s) + dy * orbit_speed s \<le> pi - eps ext
          \<longrightarrow> theta (spherical (OnUpdate ext s delta)) =
                theta (spherical s) + dy * orbit_speed s)
       \<and> OnUpdate ext s delta = OnUpdate ext s delta'"
proof -
  from assms have orb: "do_orbit s" and off: "x2 (offset s) = dx" "y2 (offset s) = dy"
    by (simp_all add: do_orbit_def offset_def)
  have p: "phi (spherical (OnUpdate ext s delta)) = phi (spherical s) - dx * orbit_speed s"
    using orb off by (simp add: OnUpdate_phi)
  have t: "theta (spherical (OnUpdate ext s delta)) =
           theta (MakeSafe (eps ext)
             ((spherical s)\<lparr>theta := theta (spherical s) + dy * orbit_speed s\<rparr>))"
    using orb off by (simp add: OnUpdate_theta)
  have u: "eps ext \<le> theta (spherical s) + dy * orbit_speed s
            \<and> theta (spherical s) + dy * orbit_speed s \<le> pi - eps ext
          \<longrightarrow> theta (spherical (OnUpdate ext s delta)) =
                theta (spherical s) + dy * orbit_speed s"
    unfolding t by (simp add: MakeSafe_def)
  have d: "OnUpdate ext s delta = OnUpdate ext s delta'"
    by (simp add: OnUpdate_def)
  from p t u d show ?thesis by blast
qed

theorem left_drag_rotates_witness:
  "curr_button
     (OnMouseEvent
        (OnMouseEvent (controller (Parameters_default\<lparr>pitch := 1\<rparr>))
           (pressed MouseButton_Left \<lparr>x2 = 0, y2 = 0\<rparr>))
        (moved \<lparr>x2 = 100, y2 = 10\<rparr>)) = MouseButton_Left
   \<and> phi (spherical (OnUpdate fixed_axes
        (OnMouseEvent
           (OnMouseEvent (controller (Parameters_default\<lparr>pitch := 1\<rparr>))
              (pressed MouseButton_Left \<lparr>x2 = 0, y2 = 0\<rparr>))
           (moved \<lparr>x2 = 100, y2 = 10\<rparr>)) (1 / 60))) = - 1
   \<and> theta (spherical (OnUpdate fixed_axes
        (OnMouseEvent
           (OnMouseEvent (controller (Parameters_default\<lparr>pitch := 1\<rparr>))
              (pressed MouseButton_Left \<lparr>x2 = 0, y2 = 0\<rparr>))
           (moved \<lparr>x2 = 100, y2 = 10\<rparr>)) (1 / 60))) = 11 / 10
   \<and> OnUpdate fixed_axes
        (OnMouseEvent
           (OnMouseEvent (controller (Parameters_default\<lparr>pitch := 1\<rparr>))
              (pressed MouseButton_Left \<lparr>x2 = 0, y2 = 0\<rparr>))
           (moved \<lparr>x2 = 100, y2 = 10\<rparr>)) (1 / 60)
     = OnUpdate fixed_axes
        (OnMouseEvent
           (OnMouseEvent (controller (Parameters_default\<lparr>pitch := 1\<rparr>))
              (pressed MouseButton_Left \<lparr>x2 = 0, y2 = 0\<rparr>))
           (moved \<lparr>x2 = 100, y2 = 10\<rparr>)) (1 / 30)"
proof -
  let ?s = "OnMouseEvent
        (OnMouseEvent (controller (Parameters_default\<lparr>pitch := 1\<rparr>))
           (pressed MouseButton_Left \<lparr>x2 = 0, y2 = 0\<rparr>))
        (moved \<lparr>x2 = 100, y2 = 10\<rparr>)"
  have b: "curr_button ?s = MouseButton_Left"
    by (simp add: fixture_defs op_defs)
  have o: "Vector2_sub (curr_pos ?s) (prev_pos ?s) = \<lparr>x2 = 100, y2 = 10\<rparr>"
    by (simp add: fixture_defs op_defs)
  have v: "phi (spherical ?s) = 0" "theta (spherical ?s) = 1" "orbit_speed ?s = 1 / 100"
    by (simp_all add: fixture_defs op_defs)
  have e: "eps fixed_axes = 1 / 1000"
    by (simp add: fixed_axes_def)
  have r: "eps fixed_axes \<le> theta (spherical ?s) + 10 * orbit_speed ?s
           \<and> theta (spherical ?s) + 10 * orbit_speed ?s \<le> pi - eps fixed_axes"
    using pi_ge_two by (simp add: v e)
  note th = left_drag_rotates [OF b o, of fixed_axes "1 / 60" "1 / 30"]
  from th have "phi (spherical (OnUpdate fixed_axes ?s (1 / 60)))
                  = phi (spherical ?s) - 100 * orbit_speed ?s"
    by blast
  then have p: "phi (spherical (OnUpdate fixed_axes ?s (1 / 60))) = - 1"
    by (simp add: v)
  from th r have "theta (spherical (OnUpdate fixed_axes ?s (1 / 60)))
                  = theta (spherical ?s) + 10 * orbit_speed ?s"
    by blast
  then have t: "theta (spherical (OnUpdate fixed_axes ?s (1 / 60))) = 11 / 10"
    by (simp add: v)
  from th have d: "OnUpdate fixed_axes ?s (1 / 60) = OnUpdate fixed_axes ?s (1 / 30)"
    by blast
  from b p t d show ?thesis by blast
qed

section \<open>The held-button latch\<close>

text \<open>
  Claim C4. The first press wins. A \<open>ButtonPressed\<close> event makes the event's button
  the held one when no button is held, and leaves the held button as it is otherwise. A
  \<open>ButtonReleased\<close> event clears the held button when it names the held button, and
  leaves it as it is otherwise; so a held button is cleared exactly by its own release.
\<close>

theorem button_latch:
  "(type e = ButtonPressed \<longrightarrow>
      curr_button (OnMouseEvent s e) =
        (if curr_button s = MouseButton_None then button e else curr_button s))
   \<and> (type e = ButtonReleased \<longrightarrow>
      curr_button (OnMouseEvent s e) =
        (if button e = curr_button s then MouseButton_None else curr_button s))
   \<and> (type e = ButtonReleased \<and> curr_button s \<noteq> MouseButton_None \<longrightarrow>
      (curr_button (OnMouseEvent s e) = MouseButton_None) = (button e = curr_button s))"
  by (simp add: OnMouseEvent_curr_button)

theorem button_latch_witness:
  "curr_button (OnMouseEvent (controller Parameters_default)
       (pressed MouseButton_Left \<lparr>x2 = 0, y2 = 0\<rparr>)) = MouseButton_Left
   \<and> curr_button (OnMouseEvent
         (OnMouseEvent (controller Parameters_default)
            (pressed MouseButton_Left \<lparr>x2 = 0, y2 = 0\<rparr>))
         (pressed MouseButton_Right \<lparr>x2 = 5, y2 = 5\<rparr>)) = MouseButton_Left
   \<and> curr_button (OnMouseEvent
         (OnMouseEvent (controller Parameters_default)
            (pressed MouseButton_Left \<lparr>x2 = 0, y2 = 0\<rparr>))
         (released MouseButton_Right \<lparr>x2 = 5, y2 = 5\<rparr>)) = MouseButton_Left
   \<and> curr_button (OnMouseEvent
         (OnMouseEvent (controller Parameters_default)
            (pressed MouseButton_Left \<lparr>x2 = 0, y2 = 0\<rparr>))
         (released MouseButton_Left \<lparr>x2 = 5, y2 = 5\<rparr>)) = MouseButton_None"
proof -
  let ?s0 = "controller Parameters_default"
  let ?s1 = "OnMouseEvent ?s0 (pressed MouseButton_Left \<lparr>x2 = 0, y2 = 0\<rparr>)"
  have n: "curr_button ?s0 = MouseButton_None"
    by (simp add: fixture_defs)
  have a: "curr_button ?s1 = MouseButton_Left"
    using button_latch [where s = ?s0 and e = "pressed MouseButton_Left \<lparr>x2 = 0, y2 = 0\<rparr>"] n
    by (simp add: pressed_def)
  have b: "curr_button (OnMouseEvent ?s1 (pressed MouseButton_Right \<lparr>x2 = 5, y2 = 5\<rparr>))
             = MouseButton_Left"
    using button_latch [where s = ?s1 and e = "pressed MouseButton_Right \<lparr>x2 = 5, y2 = 5\<rparr>"] a
    by (simp add: pressed_def)
  have c: "curr_button (OnMouseEvent ?s1 (released MouseButton_Right \<lparr>x2 = 5, y2 = 5\<rparr>))
             = MouseButton_Left"
    using button_latch [where s = ?s1 and e = "released MouseButton_Right \<lparr>x2 = 5, y2 = 5\<rparr>"] a
    by (simp add: released_def)
  have d: "curr_button (OnMouseEvent ?s1 (released MouseButton_Left \<lparr>x2 = 5, y2 = 5\<rparr>))
             = MouseButton_None"
    using button_latch [where s = ?s1 and e = "released MouseButton_Left \<lparr>x2 = 5, y2 = 5\<rparr>"] a
    by (simp add: released_def)
  from a b c d show ?thesis by blast
qed

section \<open>Pan\<close>

text \<open>
  Claim C5. With the right button held and the pointer offset \<open>(dx, dy)\<close>, \<open>OnUpdate\<close>
  subtracts from the target the vector \<open>(right * dx - up * dy) * (pan_speed * radius)\<close>,
  where \<open>right\<close> and \<open>up\<close> are read off the camera as the call finds it and \<open>radius\<close> is
  the radius the call leaves: the zoom of the same frame, if there is one, has been
  applied to it.
\<close>

theorem right_drag_pans:
  assumes "curr_button s = MouseButton_Right"
    and "Vector2_sub (curr_pos s) (prev_pos s) = \<lparr>x2 = dx, y2 = dy\<rparr>"
  shows "target (OnUpdate ext s delta) =
           Vector3_sub_assign (target s)
             (Vector3_mul
                (Vector3_sub (Vector3_mul (Camera_Right ext (camera s)) dx)
                             (Vector3_mul (Camera_Up ext (camera s)) dy))
                (pan_speed s * radius (spherical (OnUpdate ext s delta))))
       \<and> radius (spherical (OnUpdate ext s delta)) =
           (if curr_scroll_offset s \<noteq> 0
            then std_max 0.1 (radius (spherical s) - curr_scroll_offset s * zoom_speed s)
            else radius (spherical s))"
proof -
  from assms have pan: "do_pan s" and off: "x2 (offset s) = dx" "y2 (offset s) = dy"
    by (simp_all add: do_pan_def offset_def)
  have "target (OnUpdate ext s delta) =
           Vector3_sub_assign (target s)
             (Vector3_mul
                (Vector3_sub (Vector3_mul (Camera_Right ext (camera s)) dx)
                             (Vector3_mul (Camera_Up ext (camera s)) dy))
                (pan_speed s * radius (spherical (OnUpdate ext s delta))))"
    using pan off OnUpdate_target [of ext s delta] by simp
  moreover have "radius (spherical (OnUpdate ext s delta)) =
           (if curr_scroll_offset s \<noteq> 0
            then std_max 0.1 (radius (spherical s) - curr_scroll_offset s * zoom_speed s)
            else radius (spherical s))"
    by (simp add: OnUpdate_radius do_zoom_def)
  ultimately show ?thesis by blast
qed

theorem right_drag_pans_witness:
  "curr_button
     (OnMouseEvent
        (OnMouseEvent
           (OnMouseEvent (controller (Parameters_default\<lparr>Parameters.radius := 12\<rparr>))
              (pressed MouseButton_Right \<lparr>x2 = 0, y2 = 0\<rparr>))
           (moved \<lparr>x2 = 100, y2 = 50\<rparr>))
        (scrolled 8 \<lparr>x2 = 100, y2 = 50\<rparr>)) = MouseButton_Right
   \<and> radius (spherical (OnUpdate fixed_axes
        (OnMouseEvent
           (OnMouseEvent
              (OnMouseEvent (controller (Parameters_default\<lparr>Parameters.radius := 12\<rparr>))
                 (pressed MouseButton_Right \<lparr>x2 = 0, y2 = 0\<rparr>))
              (moved \<lparr>x2 = 100, y2 = 50\<rparr>))
           (scrolled 8 \<lparr>x2 = 100, y2 = 50\<rparr>)) 0)) = 10
   \<and> target (OnUpdate fixed_axes
        (OnMouseEvent
           (OnMouseEvent
              (OnMouseEvent (controller (Parameters_default\<lparr>Parameters.radius := 12\<rparr>))
                 (pressed MouseButton_Right \<lparr>x2 = 0, y2 = 0\<rparr>))
              (moved \<lparr>x2 = 100, y2 = 50\<rparr>))
           (scrolled 8 \<lparr>x2 = 100, y2 = 50\<rparr>)) 0) = \<lparr>x3 = - 1, y3 = 1 / 2, z3 = 0\<rparr>"
proof -
  let ?s = "OnMouseEvent
           (OnMouseEvent
              (OnMouseEvent (controller (Parameters_default\<lparr>Parameters.radius := 12\<rparr>))
                 (pressed MouseButton_Right \<lparr>x2 = 0, y2 = 0\<rparr>))
              (moved \<lparr>x2 = 100, y2 = 50\<rparr>))
           (scrolled 8 \<lparr>x2 = 100, y2 = 50\<rparr>)"
  have b: "curr_button ?s = MouseButton_Right"
    by (simp add: fixture_defs op_defs)
  have o: "Vector2_sub (curr_pos ?s) (prev_pos ?s) = \<lparr>x2 = 100, y2 = 50\<rparr>"
    by (simp add: fixture_defs op_defs)
  have v: "radius (spherical ?s) = 12" "curr_scroll_offset ?s = 8" "zoom_speed ?s = 1 / 4"
    "pan_speed ?s = 1 / 1000" "target ?s = \<lparr>x3 = 0, y3 = 0, z3 = 0\<rparr>"
    by (simp_all add: fixture_defs op_defs)
  have c: "Camera_Right fixed_axes (camera ?s) = \<lparr>x3 = 1, y3 = 0, z3 = 0\<rparr>"
    "Camera_Up fixed_axes (camera ?s) = \<lparr>x3 = 0, y3 = 1, z3 = 0\<rparr>"
    by (simp_all add: fixed_axes_def Vector3_Right_def Vector3_Up_def)
  from right_drag_pans [OF b o, of fixed_axes 0] b v c
  show ?thesis
    by (simp add: std_max_def Vector3_sub_assign_def Vector3_mul_def Vector3_sub_def Let_def)
qed

section \<open>Orbit, pan and zoom in one frame\<close>

text \<open>
  Claim C6, as stated: some reachable state has the orbit, the pan and the zoom condition
  true together. The held button is one value, so no state at all has the orbit and the
  pan condition together.
\<close>

theorem orbit_pan_zoom_together_counterexample:
  "\<not> (\<exists>(ext :: Vector3 Externals) s.
        reachable ext s \<and> do_orbit s \<and> do_pan s \<and> do_zoom s)"
  by (simp add: do_orbit_def do_pan_def)

text \<open>
  Claim C6, amended. The orbit and the pan condition are never true together. The zoom
  condition does not depend on them: a reachable state has the orbit and the zoom
  condition together (press left, then scroll), and a reachable state has the pan and
  the zoom condition together (press right, then scroll).
\<close>

theorem orbit_and_pan_exclusive_zoom_independent:
  fixes ext :: "'o Externals"
  shows "(\<forall>s :: 'o Impl. \<not> (do_orbit s \<and> do_pan s))
       \<and> (\<exists>s. reachable ext s \<and> do_orbit s \<and> do_zoom s)
       \<and> (\<exists>s. reachable ext s \<and> do_pan s \<and> do_zoom s)"
proof -
  obtain cam :: "'o Camera" where True by simp
  let ?s = "\<lambda>b. OnMouseEvent
                  (OnMouseEvent (OrbitControls cam Parameters_default)
                     (pressed b \<lparr>x2 = 0, y2 = 0\<rparr>))
                  (scrolled 1 \<lparr>x2 = 0, y2 = 0\<rparr>)"
  have r: "reachable ext (?s b)" for b
    by (intro reachable.after_event reachable.constructed)
  have b: "curr_button (?s b) = b" for b
    by (simp add: OnMouseEvent_curr_button OrbitControls_def pressed_def scrolled_def)
  have z: "do_zoom (?s b)" for b
    by (simp add: do_zoom_def OnMouseEvent_fields scrolled_def)
  have "reachable ext (?s MouseButton_Left) \<and> do_orbit (?s MouseButton_Left)
        \<and> do_zoom (?s MouseButton_Left)"
    using r b z unfolding do_orbit_def by blast
  moreover have "reachable ext (?s MouseButton_Right) \<and> do_pan (?s MouseButton_Right)
        \<and> do_zoom (?s MouseButton_Right)"
    using r b z unfolding do_pan_def by blast
  moreover have "\<forall>s :: 'o Impl. \<not> (do_orbit s \<and> do_pan s)"
    by (simp add: do_orbit_def do_pan_def)
  ultimately show ?thesis by blast
qed

section \<open>The pending scroll offset\<close>

text \<open>
  Claim C7. A \<open>Scrolled\<close> event replaces the pending scroll offset, whatever it was, by
  the vertical component of the event's scroll vector. The next \<open>OnUpdate\<close> leaves the
  pending offset at zero. With a scroll of \<open>4\<close>, a zoom speed of \<open>0.25\<close> and a radius
  that stays at or above \<open>0.1\<close>, that \<open>OnUpdate\<close> lowers the radius by \<open>1\<close>; a second
  \<open>OnUpdate\<close> does not lower it again.
\<close>

theorem scroll_consumed_once:
  assumes "type e = Scrolled"
  shows "curr_scroll_offset (OnMouseEvent s e) = y2 (scroll e)
       \<and> curr_scroll_offset (OnUpdate ext (OnMouseEvent s e) delta) = 0
       \<and> (y2 (scroll e) = 4 \<and> zoom_speed s = 0.25 \<and> 0.1 \<le> radius (spherical s) - 1
          \<longrightarrow> radius (spherical (OnUpdate ext (OnMouseEvent s e) delta))
                = radius (spherical s) - 1)
       \<and> radius (spherical (OnUpdate ext (OnUpdate ext (OnMouseEvent s e) delta) delta'))
           = radius (spherical (OnUpdate ext (OnMouseEvent s e) delta))"
proof -
  have a: "curr_scroll_offset (OnMouseEvent s e) = y2 (scroll e)"
    using assms by (simp add: OnMouseEvent_fields)
  have b: "curr_scroll_offset (OnUpdate ext (OnMouseEvent s e) delta) = 0"
    by (simp add: OnUpdate_fields)
  have c: "y2 (scroll e) = 4 \<and> zoom_speed s = 0.25 \<and> 0.1 \<le> radius (spherical s) - 1
          \<longrightarrow> radius (spherical (OnUpdate ext (OnMouseEvent s e) delta))
                = radius (spherical s) - 1"
    using a by (simp add: OnUpdate_radius do_zoom_def OnMouseEvent_fields std_max_def)
  have d: "radius (spherical (OnUpdate ext (OnUpdate ext (OnMouseEvent s e) delta) delta'))
           = radius (spherical (OnUpdate ext (OnMouseEvent s e) delta))"
    using b
    by (simp add: OnUpdate_radius [of ext "OnUpdate ext (OnMouseEvent s e) delta"] do_zoom_def)
  from a b c d show ?thesis by blast
qed

theorem scroll_consumed_once_witness:
  "type (scrolled 4 \<lparr>x2 = 0, y2 = 0\<rparr>) = Scrolled
   \<and> curr_scroll_offset
       (OnMouseEvent
          (OnMouseEvent (controller (Parameters_default\<lparr>Parameters.radius := 5\<rparr>))
             (scrolled 9 \<lparr>x2 = 0, y2 = 0\<rparr>))
          (scrolled 4 \<lparr>x2 = 0, y2 = 0\<rparr>)) = 4
   \<and> radius (spherical (OnUpdate fixed_axes
       (OnMouseEvent
          (OnMouseEvent (controller (Parameters_default\<lparr>Parameters.radius := 5\<rparr>))
             (scrolled 9 \<lparr>x2 = 0, y2 = 0\<rparr>))
          (scrolled 4 \<lparr>x2 = 0, y2 = 0\<rparr>)) 0)) = 4
   \<and> curr_scroll_offset (OnUpdate fixed_axes
       (OnMouseEvent
          (OnMouseEvent (controller (Parameters_default\<lparr>Parameters.radius := 5\<rparr>))
             (scrolled 9 \<lparr>x2 = 0, y2 = 0\<rparr>))
          (scrolled 4 \<lparr>x2 = 0, y2 = 0\<rparr>)) 0) = 0"
proof -
  let ?s = "OnMouseEvent (controller (Parameters_default\<lparr>Parameters.radius := 5\<rparr>))
             (scrolled 9 \<lparr>x2 = 0, y2 = 0\<rparr>)"
  let ?e = "scrolled 4 \<lparr>x2 = 0, y2 = 0\<rparr>"
  have t: "type ?e = Scrolled" and y: "y2 (scroll ?e) = 4"
    by (simp_all add: scrolled_def)
  have v: "zoom_speed ?s = 0.25" "radius (spherical ?s) = 5"
    by (simp_all add: fixture_defs op_defs)
  from scroll_consumed_once [OF t, of ?s fixed_axes 0 0] t y v
  show ?thesis by simp
qed

section \<open>The safe polar angle\<close>

text \<open>
  Claim C8. For a margin \<open>\<epsilon>\<close> of at most \<open>\<pi>/2\<close>, \<open>MakeSafe\<close> leaves the polar angle
  \<open>theta\<close> in \<open>[\<epsilon>, \<pi> - \<epsilon>]\<close> whatever it was, changes neither the radius nor the azimuth
  angle, and applied twice does what it does applied once. \<open>OnUpdate\<close> applies it
  before it converts the spherical coordinate and places the camera: the polar angle
  every \<open>OnUpdate\<close> leaves lies in the interval, and the camera position is computed
  from the coordinate so clamped.
\<close>

theorem MakeSafe_keeps_polar_angle_safe:
  assumes "eps ext \<le> pi / 2"
  shows "eps ext \<le> theta (MakeSafe (eps ext) sp)
       \<and> theta (MakeSafe (eps ext) sp) \<le> pi - eps ext
       \<and> radius (MakeSafe (eps ext) sp) = radius sp
       \<and> phi (MakeSafe (eps ext) sp) = phi sp
       \<and> MakeSafe (eps ext) (MakeSafe (eps ext) sp) = MakeSafe (eps ext) sp
       \<and> eps ext \<le> theta (spherical (OnUpdate ext s delta))
       \<and> theta (spherical (OnUpdate ext s delta)) \<le> pi - eps ext
       \<and> transform_position (camera (OnUpdate ext s delta)) =
           Vector3_add (target (OnUpdate ext s delta))
                       (ToVector3 (spherical (OnUpdate ext s delta)))"
proof -
  note b = MakeSafe_theta_bounds [OF assms]
  have pos: "transform_position (camera (OnUpdate ext s delta)) =
           Vector3_add (target (OnUpdate ext s delta))
                       (ToVector3 (spherical (OnUpdate ext s delta)))"
    by (simp add: OnUpdate_camera LookAt_def SetPosition_def)
  have "eps ext \<le> theta (spherical (OnUpdate ext s delta))"
    "theta (spherical (OnUpdate ext s delta)) \<le> pi - eps ext"
    unfolding OnUpdate_theta using b by blast+
  with b pos show ?thesis
    by (simp add: MakeSafe_radius MakeSafe_phi MakeSafe_idem)
qed

theorem MakeSafe_keeps_polar_angle_safe_witness:
  "eps fixed_axes \<le> pi / 2
   \<and> theta (MakeSafe (eps fixed_axes) \<lparr>radius = 1, phi = 0, theta = 7\<rparr>) = pi - 1 / 1000
   \<and> theta (MakeSafe (eps fixed_axes) \<lparr>radius = 1, phi = 0, theta = - 3\<rparr>) = 1 / 1000
   \<and> 1 / 1000 \<le> theta (spherical (OnUpdate fixed_axes (controller Parameters_default) 0))
   \<and> theta (spherical (OnUpdate fixed_axes (controller Parameters_default) 0))
       \<le> pi - 1 / 1000"
proof -
  have e: "eps fixed_axes = 1 / 1000"
    by (simp add: fixed_axes_def)
  have h: "eps fixed_axes \<le> pi / 2"
    using pi_ge_two by (simp add: e)
  have hi: "theta (MakeSafe (eps fixed_axes) \<lparr>radius = 1, phi = 0, theta = 7\<rparr>) = pi - 1 / 1000"
    using pi_less_4 pi_ge_two by (simp add: e MakeSafe_def)
  have lo: "theta (MakeSafe (eps fixed_axes) \<lparr>radius = 1, phi = 0, theta = - 3\<rparr>) = 1 / 1000"
    using pi_ge_two by (simp add: e MakeSafe_def)
  from MakeSafe_keeps_polar_angle_safe
         [OF h, of "\<lparr>radius = 1, phi = 0, theta = 7\<rparr>" "controller Parameters_default" 0]
       h hi lo
  show ?thesis by (simp add: e)
qed

section \<open>Frames without input\<close>












section \<open>The pointer position\<close>

text \<open>
  Claim C10. \<open>OnMouseEvent\<close> stores the event's position as the current pointer
  position for an event of any kind, and leaves the previous position alone. So the
  offset the next \<open>OnUpdate\<close> works with is the event's position less the previous
  position, for a button or scroll event as for a move; with the left button held,
  that offset turns the azimuth angle.
\<close>

theorem pointer_position_every_event:
  "curr_pos (OnMouseEvent s e) = position e
   \<and> prev_pos (OnMouseEvent s e) = prev_pos s
   \<and> offset (OnMouseEvent s e) = Vector2_sub (position e) (prev_pos s)
   \<and> phi (spherical (OnUpdate ext (OnMouseEvent s e) delta)) =
       (if curr_button (OnMouseEvent s e) = MouseButton_Left
        then phi (spherical s) - (x2 (position e) - x2 (prev_pos s)) * orbit_speed s
        else phi (spherical s))"
  by (simp add: OnMouseEvent_fields offset_def OnUpdate_phi do_orbit_def Vector2_sub_def)

end
